theory Spec2Isabelle
  imports Main "HOL-Library.Word" "HOL-Library.AList"
begin

section \<open>Cone search: the model of \<^verbatim>\<open>navo_utils/cone.py\<close>\<close>

subsection \<open>Python values\<close>

text \<open>
  The module dispatches on the run-time type of its arguments (\<^verbatim>\<open>type(x) is str\<close>,
  \<^verbatim>\<open>isinstance(x, SkyCoord)\<close>, \<^verbatim>\<open>type(x) is list\<close>), so its arguments are values of
  one datatype with a constructor per Python type. A float is carried as its IEEE-754
  binary64 bit pattern: the module never computes on a float, it only passes it on.
  A sky-coordinate object is the pair of its \<^verbatim>\<open>ra.deg\<close> and \<^verbatim>\<open>dec.deg\<close> attributes, the
  only two the module reads.
\<close>

type_synonym float = "64 word"

record skycoord =
  ra_deg :: float
  dec_deg :: float

datatype pyval =
    PNone
  | PInt int
  | PFloat float
  | PStr string
  | PBytes string
  | PTuple "pyval list"
  | PList "pyval list"
  | PDict "(string \<times> pyval) list"
  | PSkyCoord skycoord

text \<open>A Python dict with string keys, in insertion order.\<close>

type_synonym dict = "(string \<times> pyval) list"

fun is_str :: "pyval \<Rightarrow> bool" where
  "is_str (PStr _) = True"
| "is_str _ = False"

fun is_list :: "pyval \<Rightarrow> bool" where
  "is_list (PList _) = True"
| "is_list _ = False"

fun is_SkyCoord :: "pyval \<Rightarrow> bool" where
  "is_SkyCoord (PSkyCoord _) = True"
| "is_SkyCoord _ = False"

subsection \<open>Exceptions\<close>

text \<open>
  Every exception is a value. \<open>AssertionError\<close> carries the message of the failed
  \<^verbatim>\<open>assert\<close> (the interpreter is taken to run with assertions enabled),
  \<open>UnboundLocalError\<close> the name of the local variable read before its assignment, and
  \<open>Raised\<close> stands for whatever an external collaborator raises.
\<close>

datatype error =
    AssertionError string
  | UnboundLocalError string
  | IndexError
  | Raised string

subsection \<open>Responses and tables\<close>

record response =
  content :: string
  url :: string

record table =
  colnames :: "string list"
  rows :: "pyval list list"
  masked :: bool
  meta :: dict

subsection \<open>The collaborators\<close>

text \<open>
  The module is glue around functions it imports. They are parameters of the model,
  collected in one record; \<open>'w\<close> is the state of the world outside the process (the
  network), which only the collaborators can change:
  \<^item> \<open>parse_coordinates\<close> is \<^verbatim>\<open>astroquery.utils.parse_coordinates\<close> (it may resolve a
    name over the network);
  \<^item> \<open>format_value\<close> is what \<^verbatim>\<open>"{}".format(v)\<close> prints for a value;
  \<^item> \<open>try_query\<close> is \<^verbatim>\<open>utils.try_query(service, get_params, timeout, retries)\<close>, the
    retrying HTTP GET;
  \<^item> \<open>Table_read\<close> is \<^verbatim>\<open>astropy.table.Table.read\<close> on the bytes of a response;
  \<^item> \<open>query_loop\<close> is \<^verbatim>\<open>utils.query_loop(func, service, params)\<close>.
\<close>

type_synonym 'w search = "pyval \<Rightarrow> pyval \<Rightarrow> pyval \<Rightarrow> 'w \<Rightarrow> (error + table) \<times> 'w"

record 'w env =
  parse_coordinates :: "string \<Rightarrow> 'w \<Rightarrow> (error + skycoord) \<times> 'w"
  format_value :: "pyval \<Rightarrow> string"
  try_query :: "pyval \<Rightarrow> dict \<Rightarrow> int \<Rightarrow> int \<Rightarrow> 'w \<Rightarrow> (error + response) \<times> 'w"
  Table_read :: "string \<Rightarrow> error + table"
  query_loop :: "'w search \<Rightarrow> pyval \<Rightarrow> dict list \<Rightarrow> 'w \<Rightarrow> (error + table) \<times> 'w"

subsection \<open>\<^verbatim>\<open>ConeClass\<close>\<close>

text \<open>\<^verbatim>\<open>__init__\<close>: the timeout in seconds and the total number of times to try.\<close>

record ConeClass =
  TIMEOUT :: int
  RETRIES :: int

definition ConeClass_init :: ConeClass where
  "ConeClass_init = \<lparr>TIMEOUT = 3, RETRIES = 3\<rparr>"

text \<open>The module's instance, \<^verbatim>\<open>Cone=ConeClass()\<close>.\<close>

definition Cone :: ConeClass where
  "Cone = ConeClass_init"

subsection \<open>\<^verbatim>\<open>utils.astropy_table_from_votable_response\<close>\<close>

text \<open>\<^verbatim>\<open>Table(masked=True)\<close>: no column, no row.\<close>

definition empty_masked_table :: table where
  "empty_masked_table = \<lparr>colnames = [], rows = [], masked = True, meta = []\<rparr>"

text \<open>\<^verbatim>\<open>t.meta['xml_raw']=[response.content]; t.meta['url']=[response.url]\<close>\<close>

definition record_provenance :: "response \<Rightarrow> table \<Rightarrow> table" where
  "record_provenance r t =
     t\<lparr>meta := AList.update ''url'' (PList [PStr (url r)])
                 (AList.update ''xml_raw'' (PList [PBytes (content r)]) (meta t))\<rparr>"

definition astropy_table_from_votable_response :: "'w env \<Rightarrow> response \<Rightarrow> table" where
  \<comment> \<open>Modelled from the spec: \<^verbatim>\<open>utils.astropy_table_from_votable_response\<close> lives in
      \<^verbatim>\<open>navo_utils/utils.py\<close>, which is not among the sources. Section 4.4: parse the body
      as a VOTable; on success return the table with \<^verbatim>\<open>url\<close> and \<^verbatim>\<open>xml_raw\<close> recorded in
      the metadata as single-element lists; on any parse exception return an empty masked
      table carrying the same two metadata fields.\<close>
  "astropy_table_from_votable_response E r =
     (case Table_read E (content r) of
        Inr t \<Rightarrow> record_provenance r t
      | Inl _ \<Rightarrow> record_provenance r empty_masked_table)"

subsection \<open>\<^verbatim>\<open>ConeClass._one_cone_search\<close>\<close>

text \<open>
  The \<^verbatim>\<open>if\<close>/\<^verbatim>\<open>elif\<close>/\<^verbatim>\<open>else\<close> that turns \<^verbatim>\<open>coords\<close> into a sky coordinate: a tuple or
  list of length two is formatted as \<^verbatim>\<open>"{} {}"\<close> and parsed, a string is parsed, and
  anything else must already be a \<^verbatim>\<open>SkyCoord\<close>.
\<close>

fun one_cone_search_coords :: "'w env \<Rightarrow> pyval \<Rightarrow> 'w \<Rightarrow> (error + skycoord) \<times> 'w" where
  "one_cone_search_coords E (PTuple [a, b]) w =
     parse_coordinates E (format_value E a @ '' '' @ format_value E b) w"
| "one_cone_search_coords E (PList [a, b]) w =
     parse_coordinates E (format_value E a @ '' '' @ format_value E b) w"
| "one_cone_search_coords E (PStr s) w = parse_coordinates E s w"
| "one_cone_search_coords E (PSkyCoord c) w = (Inr c, w)"
| "one_cone_search_coords E v w =
     (Inl (AssertionError (''ERROR: cannot parse input coordinates '' @ format_value E v)), w)"

definition one_cone_search :: "'w env \<Rightarrow> ConeClass \<Rightarrow> 'w search" where
  "one_cone_search E self coords radius service w =
     (case one_cone_search_coords E coords w of
        (Inl e, w1) \<Rightarrow> (Inl e, w1)
      | (Inr c, w1) \<Rightarrow>
          (let params = [(''RA'', PFloat (ra_deg c)), (''DEC'', PFloat (dec_deg c)),
                         (''SR'', radius)]
           in case try_query E service params (TIMEOUT self) (RETRIES self) w1 of
                (Inl e, w2) \<Rightarrow> (Inl e, w2)
              | (Inr r, w2) \<Rightarrow> (Inr (astropy_table_from_votable_response E r), w2)))"

subsection \<open>\<^verbatim>\<open>ConeClass.query\<close>\<close>

text \<open>Reading a local variable: one that has no value yet raises.\<close>

definition read_local :: "string \<Rightarrow> 'a option \<Rightarrow> error + 'a" where
  "read_local name slot =
     (case slot of None \<Rightarrow> Inl (UnboundLocalError name) | Some v \<Rightarrow> Inr v)"

text \<open>\<^verbatim>\<open>xs[i]\<close> for a non-negative index.\<close>

definition getitem :: "'a list \<Rightarrow> nat \<Rightarrow> error + 'a" where
  "getitem xs i = (if i < length xs then Inr (xs ! i) else Inl IndexError)"

text \<open>
  \<^verbatim>\<open>[{'coords':c,'radius':inradius[i]} for i,c in enumerate(coords)]\<close>, given the
  enumerated list.
\<close>

fun params_of :: "(nat \<times> pyval) list \<Rightarrow> pyval list \<Rightarrow> error + dict list" where
  "params_of [] inradius = Inr []"
| "params_of ((i, c) # ics) inradius =
     (case getitem inradius i of
        Inl e \<Rightarrow> Inl e
      | Inr r \<Rightarrow>
          (case params_of ics inradius of
             Inl e \<Rightarrow> Inl e
           | Inr ps \<Rightarrow> Inr ([(''coords'', c), (''radius'', r)] # ps)))"

definition coords_message :: string where
  "coords_message = ''ERROR: Give a coordinate object that is a single string, a list/tuple (ra,dec), a SkyCoord, or a list of any of the above.''"

definition radius_message :: string where
  "radius_message = ''Please give either single radius or list of radii of same length as coords.''"

text \<open>
  The radius branch. When \<^verbatim>\<open>radius\<close> is a list the code runs \<^verbatim>\<open>inradius = inradius\<close>:
  the right-hand side reads the local \<^verbatim>\<open>inradius\<close>, which has no value at that point;
  the length assertion comes after that read.
\<close>

definition query_inradius :: "pyval \<Rightarrow> pyval list \<Rightarrow> error + pyval list" where
  "query_inradius radius coords =
     (if \<not> is_list radius then Inr (replicate (length coords) radius)
      else
        (case read_local ''inradius'' (None :: pyval list option) of
           Inl e \<Rightarrow> Inl e
         | Inr inradius \<Rightarrow>
             (if length inradius = length coords then Inr inradius
              else Inl (AssertionError radius_message))))"

definition query :: "'w env \<Rightarrow> ConeClass \<Rightarrow> pyval \<Rightarrow> pyval \<Rightarrow> pyval \<Rightarrow> dict \<Rightarrow> 'w
    \<Rightarrow> (error + table) \<times> 'w" where
  "query E self service0 coords0 radius kwargs w =
     (let service = (if is_str service0 then PDict [(''access_url'', service0)] else service0);
          coords = (if is_str coords0 \<or> is_SkyCoord coords0 then PList [coords0] else coords0)
      in case coords of
           PList cs \<Rightarrow>
             (case query_inradius radius cs of
                Inl e \<Rightarrow> (Inl e, w)
              | Inr inradius \<Rightarrow>
                  (case params_of (enumerate 0 cs) inradius of
                     Inl e \<Rightarrow> (Inl e, w)
                   | Inr params \<Rightarrow>
                       query_loop E (one_cone_search E self) service params w))
         | _ \<Rightarrow> (Inl (AssertionError coords_message), w))"

subsection \<open>A simulated environment\<close>

text \<open>
  To run the model on concrete inputs the collaborators need values. In the simulated
  environment the world is the list of the requests issued so far, oldest first;
  \<open>sim_try_query\<close> appends its request and answers with a body that is no VOTable;
  \<open>sim_parse_coordinates\<close> knows two positions; \<open>sim_query_loop\<close> calls the search
  function once per parameter mapping, in order, stops at the first exception and stacks
  the tables (section 4.5 of the specification leaves the failure policy open).
\<close>

type_synonym request = "pyval \<times> dict \<times> int \<times> int"

definition sim_parse_coordinates :: "string \<Rightarrow> request list \<Rightarrow> (error + skycoord) \<times> request list" where
  "sim_parse_coordinates s w =
     (if s = ''10.0 41.0'' then (Inr \<lparr>ra_deg = 0x4024000000000000, dec_deg = 0x4044800000000000\<rparr>, w)
      else if s = ''M42'' then (Inr \<lparr>ra_deg = 0x4054F48B43958106, dec_deg = 0xC015904B3C3E74B0\<rparr>, w)
      else (Inl (Raised ''ValueError''), w))"

fun sim_format_value :: "pyval \<Rightarrow> string" where
  "sim_format_value (PStr s) = s"
| "sim_format_value (PFloat f) =
     (if f = 0x4024000000000000 then ''10.0''
      else if f = 0x4044800000000000 then ''41.0'' else ''nan'')"
| "sim_format_value v = ''None''"

fun sim_access_url :: "pyval \<Rightarrow> string" where
  "sim_access_url (PDict d) = (case map_of d ''access_url'' of Some (PStr u) \<Rightarrow> u | _ \<Rightarrow> [])"
| "sim_access_url v = []"

definition sim_try_query :: "pyval \<Rightarrow> dict \<Rightarrow> int \<Rightarrow> int \<Rightarrow> request list
    \<Rightarrow> (error + response) \<times> request list" where
  "sim_try_query service get_params timeout retries w =
     (Inr \<lparr>content = ''not found'', url = sim_access_url service\<rparr>,
      w @ [(service, get_params, timeout, retries)])"

definition sim_Table_read :: "string \<Rightarrow> error + table" where
  "sim_Table_read body = Inl (Raised ''ValueError'')"

fun sim_merge_meta :: "dict \<Rightarrow> dict \<Rightarrow> dict" where
  "sim_merge_meta [] m = m"
| "sim_merge_meta ((k, v) # kvs) m =
     (case (v, map_of m k) of
        (PList xs, Some (PList ys)) \<Rightarrow> (k, PList (xs @ ys)) # sim_merge_meta kvs (AList.delete k m)
      | _ \<Rightarrow> (k, v) # sim_merge_meta kvs (AList.delete k m))"

fun sim_vstack :: "table list \<Rightarrow> table" where
  "sim_vstack [] = \<lparr>colnames = [], rows = [], masked = False, meta = []\<rparr>"
| "sim_vstack [t] = t"
| "sim_vstack (t # ts) =
     (let u = sim_vstack ts
      in \<lparr>colnames = (if colnames t = [] then colnames u else colnames t),
          rows = rows t @ rows u, masked = (masked t \<or> masked u),
          meta = sim_merge_meta (meta t) (meta u)\<rparr>)"

fun sim_calls :: "'w search \<Rightarrow> pyval \<Rightarrow> dict list \<Rightarrow> 'w \<Rightarrow> (error + table list) \<times> 'w" where
  "sim_calls func service [] w = (Inr [], w)"
| "sim_calls func service (p # ps) w =
     (case (map_of p ''coords'', map_of p ''radius'') of
        (Some c, Some r) \<Rightarrow>
          (case func c r service w of
             (Inl e, w1) \<Rightarrow> (Inl e, w1)
           | (Inr t, w1) \<Rightarrow>
               (case sim_calls func service ps w1 of
                  (Inl e, w2) \<Rightarrow> (Inl e, w2)
                | (Inr ts, w2) \<Rightarrow> (Inr (t # ts), w2)))
      | _ \<Rightarrow> (Inl (Raised ''TypeError''), w))"

definition sim_query_loop :: "'w search \<Rightarrow> pyval \<Rightarrow> dict list \<Rightarrow> 'w \<Rightarrow> (error + table) \<times> 'w" where
  "sim_query_loop func service params w =
     (case sim_calls func service params w of
        (Inl e, w1) \<Rightarrow> (Inl e, w1)
      | (Inr ts, w1) \<Rightarrow> (Inr (sim_vstack ts), w1))"

definition sim :: "request list env" where
  "sim = \<lparr>parse_coordinates = sim_parse_coordinates, format_value = sim_format_value,
          try_query = sim_try_query, Table_read = sim_Table_read,
          query_loop = sim_query_loop\<rparr>"

section \<open>Properties\<close>

subsection \<open>Auxiliary facts\<close>

lemma params_of_replicate:
  "n + length cs \<le> m \<Longrightarrow>
   params_of (enumerate n cs) (replicate m r) =
     Inr (map (\<lambda>c. [(''coords'', c), (''radius'', r)]) cs)"
  by (induction cs arbitrary: n) (simp_all add: getitem_def)

lemma query_inradius_scalar:
  "\<not> is_list radius \<Longrightarrow> query_inradius radius cs = Inr (replicate (length cs) radius)"
  by (simp add: query_inradius_def)

lemma query_inradius_list:
  "is_list radius \<Longrightarrow> query_inradius radius cs = Inl (UnboundLocalError ''inradius'')"
  by (simp add: query_inradius_def read_local_def)

lemma query_list_scalar:
  assumes "\<not> is_list radius"
  shows "query E self service (PList cs) radius kwargs w =
         query_loop E (one_cone_search E self)
           (if is_str service then PDict [(''access_url'', service)] else service)
           (map (\<lambda>c. [(''coords'', c), (''radius'', radius)]) cs) w"
  using assms by (simp add: query_def query_inradius_scalar params_of_replicate)

lemma query_not_list:
  assumes "\<not> is_str coords" and "\<not> is_SkyCoord coords" and "\<not> is_list coords"
  shows "query E self service coords radius kwargs w =
         (Inl (AssertionError coords_message), w)"
  using assms by (cases coords) (simp_all add: query_def)

lemma query_list_radius_list:
  assumes "is_list radius"
  shows "query E self service (PList cs) radius kwargs w =
         (Inl (UnboundLocalError ''inradius''), w)"
  using assms by (simp add: query_def query_inradius_list)

lemma query_wrap:
  assumes "is_str coords \<or> is_SkyCoord coords"
  shows "query E self service coords radius kwargs w =
         query E self service (PList [coords]) radius kwargs w"
  using assms by (cases coords) (simp_all add: query_def)

subsection \<open>The radius list\<close>

text \<open>
  C1. A call with a list of N coordinates and a list of M radii, M different from N,
  should fail with the assertion error of the length check. Evaluated at two coordinates
  and one radius, the code fails, and before any request, but with the unbound-local
  error of \<^verbatim>\<open>inradius = inradius\<close>: the length assertion is never reached.
\<close>

theorem query_mismatched_radius_list_unbound_local:
  "query sim Cone (PStr ''http://example.org/cone'') (PList [PStr ''M42'', PStr ''10.0 41.0''])
     (PList [PInt 1]) [] []
   = (Inl (UnboundLocalError ''inradius''), [])
   \<and> query sim Cone (PStr ''http://example.org/cone'') (PList [PStr ''M42'', PStr ''10.0 41.0''])
       (PList [PInt 1]) [] []
     \<noteq> (Inl (AssertionError radius_message), [])"
  by (simp add: query_def query_inradius_def read_local_def)

text \<open>
  C2, as amended. For every call with a list radius the call fails and leaves the world
  as it was, whatever the collaborators are, so neither the query loop nor the network is
  reached: with the unbound-local error of \<^verbatim>\<open>inradius\<close> when \<^verbatim>\<open>coords\<close> is a string, a
  \<^verbatim>\<open>SkyCoord\<close> or a list (also when the two lists have the same length), and with the
  assertion error of the coordinate check, which comes first, for any other \<^verbatim>\<open>coords\<close>.
\<close>

theorem query_list_radius_fails_before_loop:
  assumes "is_list radius"
  shows "query E self service coords radius kwargs w =
    (Inl (if is_str coords \<or> is_SkyCoord coords \<or> is_list coords
          then UnboundLocalError ''inradius'' else AssertionError coords_message), w)"
proof (cases "is_str coords \<or> is_SkyCoord coords")
  case True
  then have "query E self service coords radius kwargs w =
             query E self service (PList [coords]) radius kwargs w"
    by (rule query_wrap)
  also have "\<dots> = (Inl (UnboundLocalError ''inradius''), w)"
    using assms by (rule query_list_radius_list)
  finally show ?thesis using True by auto
next
  case not_single: False
  show ?thesis
  proof (cases "is_list coords")
    case True
    then obtain cs where "coords = PList cs" by (cases coords) simp_all
    then show ?thesis using assms by (simp add: query_list_radius_list)
  next
    case False
    then show ?thesis using not_single by (simp add: query_not_list)
  qed
qed

theorem query_list_radius_fails_before_loop_witness:
  "is_list (PList [PInt 1, PInt 2]) \<and>
   query sim Cone (PStr ''http://example.org/cone'') (PList [PStr ''M42'', PStr ''10.0 41.0''])
     (PList [PInt 1, PInt 2]) [] [] = (Inl (UnboundLocalError ''inradius''), [])"
  using query_list_radius_fails_before_loop [of "PList [PInt 1, PInt 2]" sim Cone
      "PStr ''http://example.org/cone''" "PList [PStr ''M42'', PStr ''10.0 41.0'']" "[]" "[]"]
  by simp

text \<open>
  The claim as written fails when \<^verbatim>\<open>coords\<close> is a tuple: the coordinate assertion is
  evaluated before the radius branch, and the call raises the assertion error.
\<close>

theorem query_list_radius_tuple_coords_counterexample:
  "query sim Cone (PStr ''http://example.org/cone'') (PTuple [PStr ''M42'', PStr ''10.0 41.0''])
     (PList [PInt 1, PInt 1]) [] []
   = (Inl (AssertionError coords_message), [])
   \<and> query sim Cone (PStr ''http://example.org/cone'') (PTuple [PStr ''M42'', PStr ''10.0 41.0''])
       (PList [PInt 1, PInt 1]) [] []
     \<noteq> (Inl (UnboundLocalError ''inradius''), [])"
  by (simp add: query_def)

subsection \<open>The shapes of \<^verbatim>\<open>coords\<close>\<close>

text \<open>
  C3, as amended. Given a scalar radius, \<^verbatim>\<open>query\<close> accepts a string, a \<^verbatim>\<open>SkyCoord\<close> or a
  list of positions and hands the positions to the query loop: a single string or
  \<^verbatim>\<open>SkyCoord\<close> as one position, a list as one position per element. An (RA, Dec) pair
  is a single position only as an element of a list; a bare two-element list is read as
  two positions. A bare pair given as a tuple is no valid shape: it is rejected with the
  assertion error of the coordinate check, whatever the radius.
\<close>

theorem query_accepted_coords_shapes:
  "(\<not> is_list radius \<longrightarrow>
       query E self service (PStr s) radius kwargs w =
         query_loop E (one_cone_search E self) (if is_str service then PDict [(''access_url'', service)] else service)
           [[(''coords'', PStr s), (''radius'', radius)]] w
     \<and> query E self service (PSkyCoord c) radius kwargs w =
         query_loop E (one_cone_search E self) (if is_str service then PDict [(''access_url'', service)] else service)
           [[(''coords'', PSkyCoord c), (''radius'', radius)]] w
     \<and> query E self service (PList cs) radius kwargs w =
         query_loop E (one_cone_search E self) (if is_str service then PDict [(''access_url'', service)] else service)
           (map (\<lambda>p. [(''coords'', p), (''radius'', radius)]) cs) w
     \<and> query E self service (PList [PTuple [ra, dec]]) radius kwargs w =
         query_loop E (one_cone_search E self) (if is_str service then PDict [(''access_url'', service)] else service)
           [[(''coords'', PTuple [ra, dec]), (''radius'', radius)]] w
     \<and> query E self service (PList [ra, dec]) radius kwargs w =
         query_loop E (one_cone_search E self) (if is_str service then PDict [(''access_url'', service)] else service)
           [[(''coords'', ra), (''radius'', radius)],
            [(''coords'', dec), (''radius'', radius)]] w)
   \<and> query E self service (PTuple [ra, dec]) radius kwargs w =
       (Inl (AssertionError coords_message), w)"
proof -
  have reject: "query E self service (PTuple [ra, dec]) radius kwargs w =
      (Inl (AssertionError coords_message), w)"
    by (simp add: query_not_list)
  have accept: "query E self service (PList cs) radius kwargs w =
         query_loop E (one_cone_search E self) (if is_str service then PDict [(''access_url'', service)] else service)
           (map (\<lambda>p. [(''coords'', p), (''radius'', radius)]) cs) w"
    if "\<not> is_list radius" for cs
    using that by (rule query_list_scalar)
  have single: "query E self service p radius kwargs w =
         query_loop E (one_cone_search E self) (if is_str service then PDict [(''access_url'', service)] else service)
           [[(''coords'', p), (''radius'', radius)]] w"
    if "\<not> is_list radius" and "is_str p \<or> is_SkyCoord p" for p
    using that accept [of "[p]"] query_wrap [of p E self service radius kwargs w] by simp
  show ?thesis
    using reject accept [of cs] accept [of "[PTuple [ra, dec]]"] accept [of "[ra, dec]"]
      single [of "PStr s"] single [of "PSkyCoord c"]
    by simp
qed

theorem query_accepted_coords_shapes_witness:
  "\<not> is_list (PInt 1)
   \<and> query sim Cone (PStr ''http://example.org/cone'') (PStr ''M42'') (PInt 1) [] [] =
       query_loop sim (one_cone_search sim Cone) (PDict [(''access_url'', PStr ''http://example.org/cone'')])
         [[(''coords'', PStr ''M42''), (''radius'', PInt 1)]] []
   \<and> query sim Cone (PStr ''http://example.org/cone'') (PSkyCoord \<lparr>ra_deg = 0, dec_deg = 0\<rparr>) (PInt 1) [] [] =
       query_loop sim (one_cone_search sim Cone) (PDict [(''access_url'', PStr ''http://example.org/cone'')])
         [[(''coords'', PSkyCoord \<lparr>ra_deg = 0, dec_deg = 0\<rparr>), (''radius'', PInt 1)]] []
   \<and> query sim Cone (PStr ''http://example.org/cone'') (PList [PStr ''M42'', PStr ''10.0 41.0'']) (PInt 1) [] [] =
       query_loop sim (one_cone_search sim Cone) (PDict [(''access_url'', PStr ''http://example.org/cone'')])
         [[(''coords'', PStr ''M42''), (''radius'', PInt 1)],
          [(''coords'', PStr ''10.0 41.0''), (''radius'', PInt 1)]] []
   \<and> query sim Cone (PStr ''http://example.org/cone'') (PList [PTuple [PFloat 0x4024000000000000, PFloat 0x4044800000000000]]) (PInt 1) [] [] =
       query_loop sim (one_cone_search sim Cone) (PDict [(''access_url'', PStr ''http://example.org/cone'')])
         [[(''coords'', PTuple [PFloat 0x4024000000000000, PFloat 0x4044800000000000]), (''radius'', PInt 1)]] []
   \<and> query sim Cone (PStr ''http://example.org/cone'') (PList [PFloat 0x4024000000000000, PFloat 0x4044800000000000]) (PInt 1) [] [] =
       query_loop sim (one_cone_search sim Cone) (PDict [(''access_url'', PStr ''http://example.org/cone'')])
         [[(''coords'', PFloat 0x4024000000000000), (''radius'', PInt 1)],
          [(''coords'', PFloat 0x4044800000000000), (''radius'', PInt 1)]] []
   \<and> query sim Cone (PStr ''http://example.org/cone'') (PTuple [PFloat 0x4024000000000000, PFloat 0x4044800000000000]) (PInt 1) [] [] =
       (Inl (AssertionError coords_message), [])
   \<and> snd (query sim Cone (PStr ''http://example.org/cone'') (PList [PTuple [PFloat 0x4024000000000000, PFloat 0x4044800000000000]]) (PInt 1) [] []) =
       [(PDict [(''access_url'', PStr ''http://example.org/cone'')], [(''RA'', PFloat 0x4024000000000000), (''DEC'', PFloat 0x4044800000000000), (''SR'', PInt 1)], 3, 3)]"
proof -
  have run: "snd (query_loop sim (one_cone_search sim Cone) (PDict [(''access_url'', PStr ''http://example.org/cone'')])
         [[(''coords'', PTuple [PFloat 0x4024000000000000, PFloat 0x4044800000000000]), (''radius'', PInt 1)]] []) =
       [(PDict [(''access_url'', PStr ''http://example.org/cone'')], [(''RA'', PFloat 0x4024000000000000), (''DEC'', PFloat 0x4044800000000000), (''SR'', PInt 1)], 3, 3)]"
    by (simp add: sim_def sim_query_loop_def one_cone_search_def sim_parse_coordinates_def
        sim_try_query_def Cone_def ConeClass_init_def)
  show ?thesis
    using run query_accepted_coords_shapes [of "PInt 1" sim Cone "PStr ''http://example.org/cone''" "''M42''" "[]" "[]"
      "\<lparr>ra_deg = 0, dec_deg = 0\<rparr>" "[PStr ''M42'', PStr ''10.0 41.0'']" "PFloat 0x4024000000000000" "PFloat 0x4044800000000000"]
    by simp
qed

text \<open>
  The claim as written fails at the pair (10.0, 41.0) given as a tuple: the call raises
  the assertion error and issues no request.
\<close>

theorem query_bare_pair_tuple_counterexample:
  "query sim Cone (PStr ''http://example.org/cone'') (PTuple [PFloat 0x4024000000000000, PFloat 0x4044800000000000]) (PFloat 0x3FE0000000000000) [] []
   = (Inl (AssertionError coords_message), [])"
  by (simp add: query_def)

text \<open>
  C4. With a list of N positions and a scalar radius, \<^verbatim>\<open>query\<close> hands the query loop
  exactly N parameter mappings, the i-th holding the i-th position under \<^verbatim>\<open>coords\<close> and
  the scalar under \<^verbatim>\<open>radius\<close>, together with the search function and the service.
\<close>

theorem query_scalar_radius_params:
  assumes "\<not> is_list radius"
  shows "query E self service (PList cs) radius kwargs w =
           query_loop E (one_cone_search E self) (if is_str service then PDict [(''access_url'', service)] else service)
             (map (\<lambda>c. [(''coords'', c), (''radius'', radius)]) cs) w
       \<and> length (map (\<lambda>c. [(''coords'', c), (''radius'', radius)]) cs) = length cs"
  using assms by (simp add: query_list_scalar)

theorem query_scalar_radius_params_witness:
  "\<not> is_list (PFloat 0x3FE0000000000000)
   \<and> query sim Cone (PDict [(''access_url'', PStr ''http://example.org/cone''), (''short_name'', PStr ''demo'')])
       (PList [PStr ''M42'', PStr ''10.0 41.0'', PSkyCoord \<lparr>ra_deg = 0, dec_deg = 0\<rparr>])
       (PFloat 0x3FE0000000000000) [] [] =
     query_loop sim (one_cone_search sim Cone) (PDict [(''access_url'', PStr ''http://example.org/cone''), (''short_name'', PStr ''demo'')])
       [[(''coords'', PStr ''M42''), (''radius'', PFloat 0x3FE0000000000000)],
        [(''coords'', PStr ''10.0 41.0''), (''radius'', PFloat 0x3FE0000000000000)],
        [(''coords'', PSkyCoord \<lparr>ra_deg = 0, dec_deg = 0\<rparr>), (''radius'', PFloat 0x3FE0000000000000)]] []
   \<and> snd (query sim Cone (PDict [(''access_url'', PStr ''http://example.org/cone''), (''short_name'', PStr ''demo'')])
       (PList [PStr ''M42'', PStr ''10.0 41.0'', PSkyCoord \<lparr>ra_deg = 0, dec_deg = 0\<rparr>])
       (PFloat 0x3FE0000000000000) [] []) =
     [((PDict [(''access_url'', PStr ''http://example.org/cone''), (''short_name'', PStr ''demo'')]),
       [(''RA'', PFloat 0x4054F48B43958106), (''DEC'', PFloat 0xC015904B3C3E74B0),
        (''SR'', PFloat 0x3FE0000000000000)], 3, 3),
      ((PDict [(''access_url'', PStr ''http://example.org/cone''), (''short_name'', PStr ''demo'')]),
       [(''RA'', PFloat 0x4024000000000000), (''DEC'', PFloat 0x4044800000000000),
        (''SR'', PFloat 0x3FE0000000000000)], 3, 3),
      ((PDict [(''access_url'', PStr ''http://example.org/cone''), (''short_name'', PStr ''demo'')]),
       [(''RA'', PFloat 0), (''DEC'', PFloat 0), (''SR'', PFloat 0x3FE0000000000000)], 3, 3)]"
proof -
  have run: "snd (query_loop sim (one_cone_search sim Cone) (PDict [(''access_url'', PStr ''http://example.org/cone''), (''short_name'', PStr ''demo'')])
       [[(''coords'', PStr ''M42''), (''radius'', PFloat 0x3FE0000000000000)],
        [(''coords'', PStr ''10.0 41.0''), (''radius'', PFloat 0x3FE0000000000000)],
        [(''coords'', PSkyCoord \<lparr>ra_deg = 0, dec_deg = 0\<rparr>), (''radius'', PFloat 0x3FE0000000000000)]] []) =
     [((PDict [(''access_url'', PStr ''http://example.org/cone''), (''short_name'', PStr ''demo'')]),
       [(''RA'', PFloat 0x4054F48B43958106), (''DEC'', PFloat 0xC015904B3C3E74B0),
        (''SR'', PFloat 0x3FE0000000000000)], 3, 3),
      ((PDict [(''access_url'', PStr ''http://example.org/cone''), (''short_name'', PStr ''demo'')]),
       [(''RA'', PFloat 0x4024000000000000), (''DEC'', PFloat 0x4044800000000000),
        (''SR'', PFloat 0x3FE0000000000000)], 3, 3),
      ((PDict [(''access_url'', PStr ''http://example.org/cone''), (''short_name'', PStr ''demo'')]),
       [(''RA'', PFloat 0), (''DEC'', PFloat 0), (''SR'', PFloat 0x3FE0000000000000)], 3, 3)]"
    by (simp add: sim_def sim_query_loop_def one_cone_search_def sim_parse_coordinates_def
        sim_try_query_def Cone_def ConeClass_init_def)
  show ?thesis
    using run query_scalar_radius_params [of "PFloat 0x3FE0000000000000" sim Cone
      "PDict [(''access_url'', PStr ''http://example.org/cone''), (''short_name'', PStr ''demo'')]"
      "[PStr ''M42'', PStr ''10.0 41.0'', PSkyCoord \<lparr>ra_deg = 0, dec_deg = 0\<rparr>]" "[]" "[]"]
    by simp
qed

subsection \<open>One cone search\<close>

text \<open>
  C5. Whenever the position normalises to a sky coordinate, the single cone search of an
  instance as \<^verbatim>\<open>__init__\<close> builds it calls the retrying GET with the service, with
  exactly the parameters \<^verbatim>\<open>RA\<close> and \<^verbatim>\<open>DEC\<close> (the coordinate's degrees) and \<^verbatim>\<open>SR\<close> (the
  radius as given), with timeout 3 and 3 retries, and decodes what the GET returns.
\<close>

theorem one_cone_search_request:
  assumes "one_cone_search_coords E coords w = (Inr c, w1)"
  shows "one_cone_search E ConeClass_init coords radius service w =
           (case try_query E service
                   [(''RA'', PFloat (ra_deg c)), (''DEC'', PFloat (dec_deg c)), (''SR'', radius)]
                   3 3 w1 of
              (Inl e, w2) \<Rightarrow> (Inl e, w2)
            | (Inr r, w2) \<Rightarrow> (Inr (astropy_table_from_votable_response E r), w2))
       \<and> TIMEOUT ConeClass_init = 3 \<and> RETRIES ConeClass_init = 3"
  using assms by (simp add: one_cone_search_def ConeClass_init_def)

theorem one_cone_search_request_witness:
  "one_cone_search_coords sim (PStr ''10.0 41.0'') [] =
     (Inr \<lparr>ra_deg = 0x4024000000000000, dec_deg = 0x4044800000000000\<rparr>, [])
   \<and> snd (one_cone_search sim ConeClass_init (PStr ''10.0 41.0'') (PFloat 0x3FE0000000000000) (PDict [(''access_url'', PStr ''http://example.org/cone'')]) []) =
     [(PDict [(''access_url'', PStr ''http://example.org/cone'')], [(''RA'', PFloat 0x4024000000000000), (''DEC'', PFloat 0x4044800000000000), (''SR'', PFloat 0x3FE0000000000000)], 3, 3)]"
proof -
  have h: "one_cone_search_coords sim (PStr ''10.0 41.0'') [] =
     (Inr \<lparr>ra_deg = 0x4024000000000000, dec_deg = 0x4044800000000000\<rparr>, [])"
    by (simp add: sim_def sim_parse_coordinates_def)
  show ?thesis
    using h one_cone_search_request [OF h, of "PFloat 0x3FE0000000000000" "PDict [(''access_url'', PStr ''http://example.org/cone'')]"]
    by (simp add: sim_def sim_try_query_def)
qed

text \<open>
  C8. When the GET returns a response whose body \<^verbatim>\<open>Table.read\<close> cannot parse, the single
  cone search returns, and does not raise: the result is the empty masked table whose
  metadata hold the raw body under \<^verbatim>\<open>xml_raw\<close> and the PStr ''http://example.org/cone'' under \<^verbatim>\<open>url\<close>, each as a
  one-element list.
\<close>

theorem one_cone_search_parse_failure:
  assumes "one_cone_search_coords E coords w = (Inr c, w1)"
    and "try_query E service
           [(''RA'', PFloat (ra_deg c)), (''DEC'', PFloat (dec_deg c)), (''SR'', radius)]
           (TIMEOUT self) (RETRIES self) w1 = (Inr r, w2)"
    and "Table_read E (content r) = Inl e"
  shows "one_cone_search E self coords radius service w =
           (Inr \<lparr>colnames = [], rows = [], masked = True,
                 meta = [(''xml_raw'', PList [PBytes (content r)]),
                         (''url'', PList [PStr (url r)])]\<rparr>, w2)
       \<and> astropy_table_from_votable_response E r =
           \<lparr>colnames = [], rows = [], masked = True,
            meta = [(''xml_raw'', PList [PBytes (content r)]),
                    (''url'', PList [PStr (url r)])]\<rparr>"
  using assms
  by (simp add: one_cone_search_def astropy_table_from_votable_response_def
      record_provenance_def empty_masked_table_def)

theorem one_cone_search_parse_failure_witness:
  "one_cone_search_coords sim (PStr ''M42'') [] = (Inr \<lparr>ra_deg = 0x4054F48B43958106, dec_deg = 0xC015904B3C3E74B0\<rparr>, [])
   \<and> try_query sim (PDict [(''access_url'', PStr ''http://example.org/cone'')])
       [(''RA'', PFloat 0x4054F48B43958106), (''DEC'', PFloat 0xC015904B3C3E74B0), (''SR'', PInt 1)]
       (TIMEOUT Cone) (RETRIES Cone) [] =
     (Inr \<lparr>content = ''not found'', url = ''http://example.org/cone''\<rparr>,
      [(PDict [(''access_url'', PStr ''http://example.org/cone'')],
        [(''RA'', PFloat 0x4054F48B43958106), (''DEC'', PFloat 0xC015904B3C3E74B0), (''SR'', PInt 1)],
        3, 3)])
   \<and> Table_read sim ''not found'' = Inl (Raised ''ValueError'')
   \<and> fst (one_cone_search sim Cone (PStr ''M42'') (PInt 1) (PDict [(''access_url'', PStr ''http://example.org/cone'')]) []) =
       Inr \<lparr>colnames = [], rows = [], masked = True,
            meta = [(''xml_raw'', PList [PBytes ''not found'']),
                    (''url'', PList [PStr ''http://example.org/cone''])]\<rparr>"
proof -
  have h1: "one_cone_search_coords sim (PStr ''M42'') [] = (Inr \<lparr>ra_deg = 0x4054F48B43958106, dec_deg = 0xC015904B3C3E74B0\<rparr>, [])"
    by (simp add: sim_def sim_parse_coordinates_def)
  have h2: "try_query sim (PDict [(''access_url'', PStr ''http://example.org/cone'')])
       [(''RA'', PFloat (ra_deg \<lparr>ra_deg = 0x4054F48B43958106, dec_deg = 0xC015904B3C3E74B0\<rparr>)),
        (''DEC'', PFloat (dec_deg \<lparr>ra_deg = 0x4054F48B43958106, dec_deg = 0xC015904B3C3E74B0\<rparr>)),
        (''SR'', PInt 1)]
       (TIMEOUT Cone) (RETRIES Cone) [] =
     (Inr \<lparr>content = ''not found'', url = ''http://example.org/cone''\<rparr>,
      [(PDict [(''access_url'', PStr ''http://example.org/cone'')],
        [(''RA'', PFloat 0x4054F48B43958106), (''DEC'', PFloat 0xC015904B3C3E74B0), (''SR'', PInt 1)],
        3, 3)])"
    by (simp add: sim_def sim_try_query_def Cone_def ConeClass_init_def)
  have h3: "Table_read sim (content \<lparr>content = ''not found'', url = ''http://example.org/cone''\<rparr>)
      = Inl (Raised ''ValueError'')"
    by (simp add: sim_def sim_Table_read_def)
  show ?thesis
    using h1 h2 h3 one_cone_search_parse_failure [OF h1 h2 h3] by simp
qed

subsection \<open>Usage errors and pass-through arguments\<close>

text \<open>
  C6. When \<^verbatim>\<open>coords\<close> is neither a string, nor a \<^verbatim>\<open>SkyCoord\<close>, nor a list, \<^verbatim>\<open>query\<close> fails
  with the assertion error of the coordinate check and leaves the world as it was,
  whatever the radius and the collaborators are: no request is issued.
\<close>

theorem query_unrecognized_coords:
  assumes "\<not> is_str coords" and "\<not> is_SkyCoord coords" and "\<not> is_list coords"
  shows "query E self service coords radius kwargs w =
         (Inl (AssertionError coords_message), w)"
  using assms by (rule query_not_list)

theorem query_unrecognized_coords_witness:
  "\<not> is_str (PInt 5) \<and> \<not> is_SkyCoord (PInt 5) \<and> \<not> is_list (PInt 5)
   \<and> query sim Cone (PStr ''http://example.org/cone'') (PInt 5) (PList [PInt 1]) [] [] =
       (Inl (AssertionError coords_message), [])"
  using query_unrecognized_coords [of "PInt 5" sim Cone "PStr ''http://example.org/cone''" "PList [PInt 1]" "[]" "[]"]
  by simp

text \<open>
  C7. A service given as the URL string \<open>s\<close> is turned into the one-key mapping from
  \<^verbatim>\<open>access_url\<close> to \<open>s\<close> before anything else: the call with the string and the call with
  that mapping have the same result and the same effect for all coordinates, radii and
  collaborators, and in both it is the mapping, not the string, that reaches the query
  loop with the parameter mappings.
\<close>

theorem query_url_string_service:
  "query E self (PStr s) coords radius kwargs w =
     query E self (PDict [(''access_url'', PStr s)]) coords radius kwargs w
   \<and> (\<not> is_list radius \<longrightarrow>
        query E self (PStr s) (PList cs) radius kwargs w =
          query_loop E (one_cone_search E self) (PDict [(''access_url'', PStr s)])
            (map (\<lambda>p. [(''coords'', p), (''radius'', radius)]) cs) w
      \<and> query E self (PDict [(''access_url'', PStr s)]) (PList cs) radius kwargs w =
          query_loop E (one_cone_search E self) (PDict [(''access_url'', PStr s)])
            (map (\<lambda>p. [(''coords'', p), (''radius'', radius)]) cs) w)
   \<and> (\<not> is_list radius \<and> (is_str coords \<or> is_SkyCoord coords) \<longrightarrow>
        query E self (PStr s) coords radius kwargs w =
          query_loop E (one_cone_search E self) (PDict [(''access_url'', PStr s)])
            [[(''coords'', coords), (''radius'', radius)]] w
      \<and> query E self (PDict [(''access_url'', PStr s)]) coords radius kwargs w =
          query_loop E (one_cone_search E self) (PDict [(''access_url'', PStr s)])
            [[(''coords'', coords), (''radius'', radius)]] w)"
proof -
  have same: "query E self (PStr s) coords radius kwargs w =
     query E self (PDict [(''access_url'', PStr s)]) coords radius kwargs w"
    by (simp add: query_def)
  have many: "query E self service (PList xs) radius kwargs w =
      query_loop E (one_cone_search E self) (PDict [(''access_url'', PStr s)])
        (map (\<lambda>p. [(''coords'', p), (''radius'', radius)]) xs) w"
    if "\<not> is_list radius" and "service = PStr s \<or> service = PDict [(''access_url'', PStr s)]"
    for service xs
    using that query_list_scalar [of radius E self service xs kwargs w] by auto
  have one: "query E self service coords radius kwargs w =
      query_loop E (one_cone_search E self) (PDict [(''access_url'', PStr s)])
        [[(''coords'', coords), (''radius'', radius)]] w"
    if "\<not> is_list radius" and "is_str coords \<or> is_SkyCoord coords"
      and "service = PStr s \<or> service = PDict [(''access_url'', PStr s)]" for service
    using that many [of service "[coords]"] query_wrap [of coords E self service radius kwargs w]
    by simp
  show ?thesis
    using same many [of "PStr s" cs] many [of "PDict [(''access_url'', PStr s)]" cs]
      one [of "PStr s"] one [of "PDict [(''access_url'', PStr s)]"]
    by simp
qed

theorem query_url_string_service_witness:
  "\<not> is_list (PInt 1) \<and> is_str (PStr ''10.0 41.0'')
   \<and> query sim Cone (PStr ''http://example.org/cone'') (PStr ''10.0 41.0'') (PInt 1) [] [] =
       query sim Cone (PDict [(''access_url'', PStr ''http://example.org/cone'')]) (PStr ''10.0 41.0'') (PInt 1) [] []
   \<and> query sim Cone (PStr ''http://example.org/cone'') (PStr ''10.0 41.0'') (PInt 1) [] [] =
       query_loop sim (one_cone_search sim Cone) (PDict [(''access_url'', PStr ''http://example.org/cone'')])
         [[(''coords'', PStr ''10.0 41.0''), (''radius'', PInt 1)]] []
   \<and> snd (query sim Cone (PStr ''http://example.org/cone'') (PStr ''10.0 41.0'') (PInt 1) [] []) =
       [(PDict [(''access_url'', PStr ''http://example.org/cone'')], [(''RA'', PFloat 0x4024000000000000), (''DEC'', PFloat 0x4044800000000000), (''SR'', PInt 1)], 3, 3)]
   \<and> fst (query sim Cone (PStr ''http://example.org/cone'') (PStr ''10.0 41.0'') (PInt 1) [] []) =
       Inr \<lparr>colnames = [], rows = [], masked = True,
            meta = [(''xml_raw'', PList [PBytes ''not found'']),
                    (''url'', PList [PStr ''http://example.org/cone''])]\<rparr>"
proof -
  have run: "query_loop sim (one_cone_search sim Cone) (PDict [(''access_url'', PStr ''http://example.org/cone'')])
         [[(''coords'', PStr ''10.0 41.0''), (''radius'', PInt 1)]] [] =
       (Inr \<lparr>colnames = [], rows = [], masked = True,
            meta = [(''xml_raw'', PList [PBytes ''not found'']),
                    (''url'', PList [PStr ''http://example.org/cone''])]\<rparr>,
        [(PDict [(''access_url'', PStr ''http://example.org/cone'')], [(''RA'', PFloat 0x4024000000000000), (''DEC'', PFloat 0x4044800000000000), (''SR'', PInt 1)], 3, 3)])"
    by (simp add: sim_def sim_query_loop_def one_cone_search_def sim_parse_coordinates_def
        sim_try_query_def Cone_def ConeClass_init_def astropy_table_from_votable_response_def
        sim_Table_read_def record_provenance_def empty_masked_table_def)
  show ?thesis
    using run query_url_string_service [of sim Cone "''http://example.org/cone''"
      "PStr ''10.0 41.0''" "PInt 1" "[]" "[]" "[]"]
    by simp
qed

text \<open>
  C9. The keyword arguments are never read: two calls of \<^verbatim>\<open>query\<close> that differ only in
  them have the same result and the same effect.
\<close>

theorem query_ignores_kwargs:
  "query E self service coords radius kwargs w =
   query E self service coords radius kwargs' w"
  by (simp add: query_def)

subsection \<open>Lists of positions\<close>

text \<open>
  With a scalar radius, a list of N coordinates gives N parameter mappings, the i-th
  carrying the i-th element under \<^verbatim>\<open>coords\<close>; so the two-element list of an RA and a
  Dec is handed to the query loop as two positions. Only \<^verbatim>\<open>_one_cone_search\<close> reads a
  two-element list or tuple as one pair, which it formats and parses as a single
  position.
\<close>

lemma query_list_one_position_per_element:
  assumes "\<not> is_list radius"
  shows "query E self service (PList cs) radius kwargs w =
           query_loop E (one_cone_search E self) (if is_str service then PDict [(''access_url'', service)] else service)
             (map (\<lambda>c. [(''coords'', c), (''radius'', radius)]) cs) w
       \<and> map (\<lambda>p. map_of p ''coords'')
           (map (\<lambda>c. [(''coords'', c), (''radius'', radius)]) cs) = map Some cs
       \<and> query E self service (PList [ra, dec]) radius kwargs w =
           query_loop E (one_cone_search E self) (if is_str service then PDict [(''access_url'', service)] else service)
             [[(''coords'', ra), (''radius'', radius)],
              [(''coords'', dec), (''radius'', radius)]] w
       \<and> one_cone_search_coords E (PList [ra, dec]) w =
           parse_coordinates E (format_value E ra @ '' '' @ format_value E dec) w
       \<and> one_cone_search_coords E (PTuple [ra, dec]) w =
           parse_coordinates E (format_value E ra @ '' '' @ format_value E dec) w"
proof -
  have loop: "query E self service (PList xs) radius kwargs w =
      query_loop E (one_cone_search E self) (if is_str service then PDict [(''access_url'', service)] else service)
        (map (\<lambda>c. [(''coords'', c), (''radius'', radius)]) xs) w" for xs
    using assms by (rule query_list_scalar)
  have "map (\<lambda>p. map_of p ''coords'')
          (map (\<lambda>c. [(''coords'', c), (''radius'', radius)]) cs) = map Some cs"
    by simp
  with loop [of cs] loop [of "[ra, dec]"] show ?thesis by simp
qed

lemma query_list_one_position_per_element_witness:
  "\<not> is_list (PFloat 0x3FE0000000000000)
   \<and> query sim Cone (PStr ''http://example.org/cone'') (PList [PFloat 0x4024000000000000, PFloat 0x4044800000000000]) (PFloat 0x3FE0000000000000) [] [] =
       query_loop sim (one_cone_search sim Cone) (PDict [(''access_url'', PStr ''http://example.org/cone'')])
         [[(''coords'', PFloat 0x4024000000000000), (''radius'', PFloat 0x3FE0000000000000)],
          [(''coords'', PFloat 0x4044800000000000), (''radius'', PFloat 0x3FE0000000000000)]] []
   \<and> query sim Cone (PStr ''http://example.org/cone'') (PList [PFloat 0x4024000000000000, PFloat 0x4044800000000000]) (PFloat 0x3FE0000000000000) [] [] =
       (Inl (AssertionError ''ERROR: cannot parse input coordinates 10.0''), [])
   \<and> one_cone_search_coords sim (PList [PFloat 0x4024000000000000, PFloat 0x4044800000000000]) [] =
       (Inr \<lparr>ra_deg = 0x4024000000000000, dec_deg = 0x4044800000000000\<rparr>, [])"
proof -
  have run: "query_loop sim (one_cone_search sim Cone) (PDict [(''access_url'', PStr ''http://example.org/cone'')])
         [[(''coords'', PFloat 0x4024000000000000), (''radius'', PFloat 0x3FE0000000000000)],
          [(''coords'', PFloat 0x4044800000000000), (''radius'', PFloat 0x3FE0000000000000)]] [] =
       (Inl (AssertionError ''ERROR: cannot parse input coordinates 10.0''), [])"
    by (simp add: sim_def sim_query_loop_def one_cone_search_def)
  have pair: "parse_coordinates sim (format_value sim (PFloat 0x4024000000000000) @ '' '' @ format_value sim (PFloat 0x4044800000000000)) [] =
       (Inr \<lparr>ra_deg = 0x4024000000000000, dec_deg = 0x4044800000000000\<rparr>, [])"
    by (simp add: sim_def sim_parse_coordinates_def)
  show ?thesis
    using run pair
      query_list_one_position_per_element [of "PFloat 0x3FE0000000000000" sim Cone "PStr ''http://example.org/cone''" "[PFloat 0x4024000000000000, PFloat 0x4044800000000000]" "[]" "[]"
        "PFloat 0x4024000000000000" "PFloat 0x4044800000000000"]
    by simp
qed

text \<open>
  C10. A list of N coordinates should give N parameter mappings, one per element, so the
  two-element list of an RA and a Dec should reach the query loop as two positions. With
  a scalar radius it does (lemma \<open>query_list_one_position_per_element\<close>). Evaluated at that
  list with a list of two radii, one per coordinate, the code builds no parameter mapping
  at all: the call stops at \<^verbatim>\<open>inradius = inradius\<close> with the unbound-local error and never
  reaches the query loop, which would have been called with the two mappings.
\<close>

theorem query_equal_length_radius_list_unbound_local:
  "query sim Cone (PStr ''http://example.org/cone'') (PList [PStr ''M42'', PStr ''10.0 41.0''])
     (PList [PFloat 0x3FE0000000000000, PInt 1]) [] []
   = (Inl (UnboundLocalError ''inradius''), [])
   \<and> snd (query_loop sim (one_cone_search sim Cone) (PDict [(''access_url'', PStr ''http://example.org/cone'')])
        [[(''coords'', PStr ''M42''), (''radius'', PFloat 0x3FE0000000000000)],
         [(''coords'', PStr ''10.0 41.0''), (''radius'', PInt 1)]] [])
     = [(PDict [(''access_url'', PStr ''http://example.org/cone'')],
         [(''RA'', PFloat 0x4054F48B43958106), (''DEC'', PFloat 0xC015904B3C3E74B0),
          (''SR'', PFloat 0x3FE0000000000000)], 3, 3),
        (PDict [(''access_url'', PStr ''http://example.org/cone'')], [(''RA'', PFloat 0x4024000000000000), (''DEC'', PFloat 0x4044800000000000), (''SR'', PInt 1)], 3, 3)]"
  by (simp add: query_def query_inradius_def read_local_def sim_def sim_query_loop_def
      one_cone_search_def sim_parse_coordinates_def sim_try_query_def Cone_def
      ConeClass_init_def)

end
